theory Spec2Isabelle
  imports Main
begin

section \<open>JavaScript values\<close>

text \<open>
  The component keeps the fetched payload in a state cell of type \<open>any\<close>, initially
  \<open>null\<close>, and later whatever \<open>response.json()\<close> produced. The values such a cell
  can hold are modelled by \<open>js\<close>. An object is the list of its own enumerable properties
  in enumeration order (keys distinct, as a parsed object has them). Of a number only
  whether it is zero matters to this component, so the numeric value is an integer.
\<close>

datatype js =
    JUndefined
  | JNull
  | JBool bool
  | JNum int
  | JStr string
  | JArr "js list"
  | JObj "(string \<times> js) list"

datatype exn = TypeError | SyntaxError | NotAllowedError

text \<open>The truthiness test behind \<open>!x\<close>, \<open>x && y\<close>, \<open>x || y\<close> and \<open>x ? y : z\<close>.\<close>

fun truthy :: "js \<Rightarrow> bool" where
  "truthy JUndefined = False"
| "truthy JNull = False"
| "truthy (JBool b) = b"
| "truthy (JNum n) = (n \<noteq> 0)"
| "truthy (JStr s) = (s \<noteq> [])"
| "truthy (JArr xs) = True"
| "truthy (JObj kvs) = True"

definition js_or :: "js \<Rightarrow> js \<Rightarrow> js" where
  "js_or a b = (if truthy a then a else b)"

text \<open>
  Property access \<open>v.k\<close> for the property names the component reads
  (\<open>env_files\<close>, \<open>error\<close>, \<open>content\<close>, ...), none of which is a built-in or inherited
  property: reading from \<open>null\<close> or \<open>undefined\<close> throws, an object yields its own
  property or \<open>undefined\<close>, every other value yields \<open>undefined\<close>.
\<close>

definition own_prop :: "(string \<times> js) list \<Rightarrow> string \<Rightarrow> js" where
  "own_prop kvs k = (case map_of kvs k of None \<Rightarrow> JUndefined | Some v \<Rightarrow> v)"

fun get_prop :: "js \<Rightarrow> string \<Rightarrow> exn + js" where
  "get_prop JUndefined k = Inl TypeError"
| "get_prop JNull k = Inl TypeError"
| "get_prop (JObj kvs) k = Inr (own_prop kvs k)"
| "get_prop v k = Inr JUndefined"

definition digit_char :: "nat \<Rightarrow> char" where
  "digit_char d = char_of (48 + d)"

fun show_nat :: "nat \<Rightarrow> string" where
  "show_nat n = (if n < 10 then [digit_char n]
                 else show_nat (n div 10) @ [digit_char (n mod 10)])"

declare show_nat.simps [simp del]

definition indexed :: "'a list \<Rightarrow> (string \<times> 'a) list" where
  "indexed xs = zip (map show_nat [0 ..< length xs]) xs"

text \<open>
  \<open>Object.entries(v)\<close>: the own enumerable properties. Arrays and strings enumerate
  their indices, numbers and booleans have none, \<open>null\<close> and \<open>undefined\<close> throw.
  \<open>Object.keys(v)\<close> is the list of the same keys.
\<close>

fun object_entries :: "js \<Rightarrow> exn + (string \<times> js) list" where
  "object_entries JUndefined = Inl TypeError"
| "object_entries JNull = Inl TypeError"
| "object_entries (JBool b) = Inr []"
| "object_entries (JNum n) = Inr []"
| "object_entries (JStr s) = Inr (indexed (map (\<lambda>c. JStr [c]) s))"
| "object_entries (JArr xs) = Inr (indexed xs)"
| "object_entries (JObj kvs) = Inr kvs"

definition object_keys :: "js \<Rightarrow> exn + string list" where
  "object_keys v = (case object_entries v of Inl e \<Rightarrow> Inl e | Inr kvs \<Rightarrow> Inr (map fst kvs))"

text \<open>Sequencing of computations that may throw.\<close>

definition and_then :: "'e + 'a \<Rightarrow> ('a \<Rightarrow> 'e + 'b) \<Rightarrow> 'e + 'b" where
  "and_then r f = (case r of Inl e \<Rightarrow> Inl e | Inr x \<Rightarrow> f x)"

fun map_throwing :: "('a \<Rightarrow> 'e + 'b) \<Rightarrow> 'a list \<Rightarrow> 'e + 'b list" where
  "map_throwing f [] = Inr []"
| "map_throwing f (x # xs) =
     and_then (f x) (\<lambda>y. and_then (map_throwing f xs) (\<lambda>ys. Inr (y # ys)))"


section \<open>Component state and its environment\<close>

datatype variant = Default | Destructive

record toast =
  title :: string
  description :: string
  variant :: variant

definition success_toast :: toast where
  "success_toast = \<lparr>title = ''System info loaded'',
     description = ''Security vault data retrieved successfully'', variant = Default\<rparr>"

definition error_toast :: toast where
  "error_toast = \<lparr>title = ''Error'',
     description = ''Failed to load system information'', variant = Destructive\<rparr>"

text \<open>
  The four \<open>useState\<close> cells of \<open>Index\<close>, and what the component's effects touch outside
  them: the calls made to \<open>toast\<close>, the clock in milliseconds, the due times of the pending
  \<open>setTimeout\<close> callbacks (each of them is \<open>() => setCopiedCode(null)\<close>), the number of
  \<open>loadSystemInfo\<close> invocations suspended at an \<open>await\<close>, the clipboard text, and the
  number of errors nobody handled (a promise rejected with no handler attached, an
  exception thrown out of an event handler).
\<close>

record state =
  activeTab :: string
  copiedCode :: "string option"
  systemInfo :: js
  loading :: bool
  toasts :: "toast list"
  clock :: nat
  timers :: "nat list"
  inflight :: nat
  clipboard :: string
  unhandled :: nat

definition initial :: "string \<Rightarrow> state" where
  "initial cb = \<lparr>activeTab = ''prompt'', copiedCode = None, systemInfo = JNull,
     loading = False, toasts = [], clock = 0, timers = [], inflight = 0,
     clipboard = cb, unhandled = 0\<rparr>"

definition toast_call :: "toast \<Rightarrow> state \<Rightarrow> state" where
  "toast_call t s = s\<lparr>toasts := toasts s @ [t]\<rparr>"

datatype 'a settled = Fulfilled 'a | Rejected exn

datatype response = Response (status: nat) (json_result: "js settled")


section \<open>copyToClipboard\<close>

text \<open>
  The first statement is \<open>navigator.clipboard.writeText(text)\<close>, with no guard. Where
  \<open>navigator.clipboard\<close> is undefined (a page outside a secure context) reading
  \<open>writeText\<close> from it throws a TypeError and the function ends there. Otherwise the
  call returns a promise, which the function drops; \<open>written\<close> says how that promise
  settles. Then the flag is set and a timer is started; no timer is ever cancelled.
\<close>

datatype clipboard_write = NoClipboard | Write "unit settled"

definition copyToClipboard ::
  "string \<Rightarrow> string \<Rightarrow> clipboard_write \<Rightarrow> state \<Rightarrow> (exn \<times> state) + state" where
  "copyToClipboard text cid cw s =
     (case cw of
        NoClipboard \<Rightarrow> Inl (TypeError, s)
      | Write written \<Rightarrow>
          (let s1 = (case written of
                       Fulfilled u \<Rightarrow> s\<lparr>clipboard := text\<rparr>
                     | Rejected e \<Rightarrow> s\<lparr>unhandled := unhandled s + 1\<rparr>);
               s2 = s1\<lparr>copiedCode := Some cid\<rparr>
           in Inr (s2\<lparr>timers := timers s2 @ [clock s2 + 2000]\<rparr>)))"

definition timer_callback :: "state \<Rightarrow> state" where
  "timer_callback s = s\<lparr>copiedCode := None\<rparr>"


section \<open>loadSystemInfo\<close>

text \<open>
  The invocation runs to its first \<open>await\<close> (\<open>loadSystemInfo_start\<close>) and is resumed
  when the request has settled (\<open>loadSystemInfo_resume\<close>). Nothing is written between
  the two awaits, so one resumption covers both: \<open>fetch\<close> rejects, or it yields a
  response whose \<open>json()\<close> rejects or yields the parsed body.
\<close>

definition loadSystemInfo_start :: "state \<Rightarrow> state" where
  "loadSystemInfo_start s = s\<lparr>loading := True, inflight := inflight s + 1\<rparr>"

definition try_block :: "response settled \<Rightarrow> state \<Rightarrow> (exn \<times> state) + state" where
  "try_block outcome s =
     (case outcome of
        Rejected e \<Rightarrow> Inl (e, s)
      | Fulfilled resp \<Rightarrow>
          (case json_result resp of
             Rejected e \<Rightarrow> Inl (e, s)
           | Fulfilled data \<Rightarrow> Inr (toast_call success_toast (s\<lparr>systemInfo := data\<rparr>))))"

definition catch_block :: "exn \<Rightarrow> state \<Rightarrow> state" where
  "catch_block e s = toast_call error_toast s"

definition finally_block :: "state \<Rightarrow> state" where
  "finally_block s = s\<lparr>loading := False\<rparr>"

definition loadSystemInfo_resume :: "response settled \<Rightarrow> state \<Rightarrow> (exn \<times> state) + state" where
  "loadSystemInfo_resume outcome s =
     (case try_block outcome s of
        Inl (e, s1) \<Rightarrow> Inr (finally_block (catch_block e s1))
      | Inr s1 \<Rightarrow> Inr (finally_block s1))"


section \<open>The effect on activeTab and the events of the page\<close>

definition tab_effect :: "state \<Rightarrow> state" where
  "tab_effect s =
     (if activeTab s = ''vault'' \<and> \<not> truthy (systemInfo s) then loadSystemInfo_start s else s)"

text \<open>
  What can happen to the mounted component: a tab is selected (\<open>setActiveTab\<close>; the effect
  runs when \<open>activeTab\<close> has changed), a copy button or the Refresh button is clicked, the
  request of a suspended invocation settles, time passes, a due timer fires. The Refresh
  button belongs to the vault panel and carries \<open>disabled={loading}\<close>; a click that does not
  reach \<open>loadSystemInfo\<close> changes nothing. An event that cannot happen in a state
  (a timer that is not due, a settlement with nothing in flight) has no successor.
\<close>

datatype event =
    SelectTab string
  | ClickCopy string string clipboard_write
  | ClickRefresh
  | Settle "response settled"
  | Elapse nat
  | Timeout nat

fun step :: "event \<Rightarrow> state \<Rightarrow> state option" where
  "step (SelectTab t) s =
     (if t = activeTab s then Some s else Some (tab_effect (s\<lparr>activeTab := t\<rparr>)))"
| "step (ClickCopy text cid cw) s =
     (case copyToClipboard text cid cw s of
        Inr s1 \<Rightarrow> Some s1
      | Inl (e, s1) \<Rightarrow> Some (s1\<lparr>unhandled := unhandled s1 + 1\<rparr>))"
| "step ClickRefresh s =
     (if activeTab s = ''vault'' \<and> \<not> loading s then Some (loadSystemInfo_start s) else Some s)"
| "step (Settle outcome) s =
     (if inflight s = 0 then None
      else (case loadSystemInfo_resume outcome (s\<lparr>inflight := inflight s - 1\<rparr>) of
              Inr s1 \<Rightarrow> Some s1
            | Inl (e, s1) \<Rightarrow> Some (s1\<lparr>unhandled := unhandled s1 + 1\<rparr>)))"
| "step (Elapse d) s = Some (s\<lparr>clock := clock s + d\<rparr>)"
| "step (Timeout k) s =
     (if k < length (timers s) \<and> timers s ! k \<le> clock s
      then Some (timer_callback (s\<lparr>timers := take k (timers s) @ drop (Suc k) (timers s)\<rparr>))
      else None)"

fun run :: "event list \<Rightarrow> state \<Rightarrow> state option" where
  "run [] s = Some s"
| "run (e # es) s = (case step e s of None \<Rightarrow> None | Some s1 \<Rightarrow> run es s1)"


section \<open>Rendering the vault panel\<close>

datatype entry_body = ErrorText js | FileContent js

datatype env_entry_view = EnvFileCard string entry_body

datatype env_files_view = NoFilesFound | FileCards "env_entry_view list"




text \<open>
  One card of the file list: \<open>data.error ? <p>Error: {data.error}</p> : <pre>{data.content}</pre>\<close>.
  The view keeps the value handed to the element as its child.
\<close>

definition render_env_entry :: "string \<times> js \<Rightarrow> exn + env_entry_view" where
  "render_env_entry pd =
     (case pd of (path, data) \<Rightarrow>
        and_then (get_prop data ''error'') (\<lambda>err.
          if truthy err then Inr (EnvFileCard path (ErrorText err))
          else and_then (get_prop data ''content'') (\<lambda>c.
                 Inr (EnvFileCard path (FileContent c)))))"

definition render_env_files :: "js \<Rightarrow> exn + env_files_view" where
  "render_env_files info =
     and_then (get_prop info ''env_files'') (\<lambda>ef.
       and_then (object_keys (js_or ef (JObj []))) (\<lambda>ks.
         if length ks = 0 then Inr NoFilesFound
         else and_then (object_entries (js_or ef (JObj []))) (\<lambda>es.
                and_then (map_throwing render_env_entry es) (\<lambda>cards.
                  Inr (FileCards cards)))))"



section \<open>Notions used in the properties\<close>

text \<open>
  The shape the specification's data model gives a DiagnosticPayload, at its top level:
  an object with three string fields and three mappings. The component has no such
  check; the predicate is here only to be compared with what \<open>loadSystemInfo\<close> accepts.
\<close>

fun is_string :: "js \<Rightarrow> bool" where
  "is_string (JStr s) = True"
| "is_string v = False"

fun is_object :: "js \<Rightarrow> bool" where
  "is_object (JObj kvs) = True"
| "is_object v = False"

fun spec_payload_shape :: "js \<Rightarrow> bool" where
  "spec_payload_shape (JObj kvs) =
     (is_string (own_prop kvs ''external_ip'') \<and> is_object (own_prop kvs ''directory_structure'')
      \<and> is_object (own_prop kvs ''environment_variables'') \<and> is_object (own_prop kvs ''env_files'')
      \<and> is_string (own_prop kvs ''request_id'') \<and> is_string (own_prop kvs ''current_dir''))"
| "spec_payload_shape v = False"

text \<open>
  \<open>held t0 s\<close>: the copied flag is set, every pending timer is due at \<open>t0 + 2000\<close> or
  later, and the clock has not run backwards from \<open>t0\<close>.
\<close>

definition held :: "nat \<Rightarrow> state \<Rightarrow> bool" where
  "held t0 s = (copiedCode s \<noteq> None \<and> list_all (\<lambda>d. t0 + 2000 \<le> d) (timers s) \<and> t0 \<le> clock s)"


section \<open>Basic facts\<close>

lemmas state_ops = loadSystemInfo_start_def loadSystemInfo_resume_def try_block_def
  catch_block_def finally_block_def toast_call_def tab_effect_def copyToClipboard_def
  timer_callback_def

lemma mount_effect_idle: "tab_effect (initial cb) = initial cb"
  by (simp add: tab_effect_def initial_def)

lemma refresh_disabled_while_loading: "loading s \<Longrightarrow> step ClickRefresh s = Some s"
  by simp

lemma settle_resets_loading:
  "0 < inflight s \<Longrightarrow>
   \<exists>s'. step (Settle outcome) s = Some s' \<and> \<not> loading s' \<and> inflight s' = inflight s - 1"
  by (auto simp: state_ops split: settled.splits)

lemma step_clock_mono: "step e s = Some s' \<Longrightarrow> clock s \<le> clock s'"
  by (cases e)
    (auto simp: state_ops Let_def
      split: if_splits sum.splits prod.splits settled.splits clipboard_write.splits)

lemma run_clock_mono: "run evs s = Some s' \<Longrightarrow> clock s \<le> clock s'"
proof (induction evs arbitrary: s)
  case Nil
  then show ?case by simp
next
  case (Cons e evs)
  then obtain s1 where a: "step e s = Some s1" and b: "run evs s1 = Some s'"
    by (auto split: option.splits)
  from step_clock_mono [OF a] Cons.IH [OF b] show ?case by simp
qed


section \<open>Overlapping fetches\<close>

text \<open>
  C1. The claim: while \<open>loading\<close> is true no user action or tab change starts a second
  invocation of \<open>loadSystemInfo\<close>. The Refresh button is indeed disabled while loading,
  but the effect on \<open>activeTab\<close> tests only \<open>activeTab === 'vault' && !systemInfo\<close>.
  On the freshly mounted page: select the vault tab (the first invocation starts and
  \<open>loading\<close> becomes true), select the prompt tab, select the vault tab again before
  the request has settled. The effect runs again, the payload is still \<open>null\<close>, and a
  second invocation is started: two are in flight.
\<close>

theorem second_fetch_started_while_loading:
  "run [SelectTab ''vault'', SelectTab ''prompt''] (initial [])
     = Some ((initial [])\<lparr>activeTab := ''prompt'', loading := True, inflight := 1\<rparr>)
   \<and> step (SelectTab ''vault'')
        ((initial [])\<lparr>activeTab := ''prompt'', loading := True, inflight := 1\<rparr>)
     = Some ((initial [])\<lparr>activeTab := ''vault'', loading := True, inflight := 2\<rparr>)"
  by (simp add: initial_def tab_effect_def loadSystemInfo_start_def)


section \<open>The copied flag and its timers\<close>

lemma copy_with_clipboard:
  "copyToClipboard text cid (Write written) s
     = Inr ((case written of
               Fulfilled u \<Rightarrow> s\<lparr>clipboard := text\<rparr>
             | Rejected e \<Rightarrow> s\<lparr>unhandled := unhandled s + 1\<rparr>)
            \<lparr>copiedCode := Some cid, timers := timers s @ [clock s + 2000]\<rparr>)"
  by (simp add: copyToClipboard_def Let_def split: settled.splits)

lemma step_keeps_timers:
  assumes "step e s = Some s'" and "\<forall>k. e \<noteq> Timeout k"
  shows "\<exists>new. timers s' = timers s @ new"
  using assms
  by (cases e)
    (auto simp: state_ops Let_def
      split: if_splits sum.splits prod.splits settled.splits clipboard_write.splits)

lemma step_held:
  assumes "held t0 s" and "clock s < t0 + 2000" and "step e s = Some s'"
  shows "held t0 s'"
proof (cases e)
  case (Timeout k)
  with assms show ?thesis
    by (auto simp: held_def list_all_length split: if_splits)
next
  case (Settle outcome)
  with assms show ?thesis
    by (auto simp: held_def state_ops split: if_splits sum.splits prod.splits settled.splits)
next
  case (ClickCopy str cid cw)
  with assms show ?thesis
    by (cases cw) (auto simp: held_def copyToClipboard_def Let_def split: settled.splits)
qed (use assms in \<open>auto simp: held_def state_ops split: if_splits\<close>)

lemma run_held:
  "held t0 s \<Longrightarrow> run evs s = Some s' \<Longrightarrow> clock s' < t0 + 2000 \<Longrightarrow> held t0 s'"
proof (induction evs arbitrary: s)
  case Nil
  then show ?case by simp
next
  case (Cons e evs)
  then obtain s1 where a: "step e s = Some s1" and b: "run evs s1 = Some s'"
    by (auto split: option.splits)
  have "clock s \<le> clock s1" by (rule step_clock_mono [OF a])
  moreover have "clock s1 \<le> clock s'" by (rule run_clock_mono [OF b])
  ultimately have "clock s < t0 + 2000" using Cons.prems(3) by simp
  then have "held t0 s1" by (rule step_held [OF Cons.prems(1) _ a])
  then show ?case using b Cons.prems(3) by (rule Cons.IH)
qed

lemma copy_establishes_held:
  "timers s = [] \<Longrightarrow> copyToClipboard text cid (Write written) s = Inr s1 \<Longrightarrow> held (clock s) s1"
  by (auto simp: held_def copy_with_clipboard split: settled.splits)

text \<open>
  C2, as stated, fails. On the examples tab the first example is copied at time 0 and the
  second at time 1500. The second call sets the flag to \<open>example-1\<close>, but the timer of the
  first call is still pending, is due at 2000 and sets the flag to \<open>null\<close>: 500 ms after
  the second call, not 2000.
\<close>

theorem second_copy_cleared_early:
  "run [SelectTab ''examples'', ClickCopy ''out0'' ''example-0'' (Write (Fulfilled ())),
        Elapse 1500]
       (initial [])
     = Some ((initial [])\<lparr>activeTab := ''examples'', copiedCode := Some ''example-0'',
               clock := 1500, timers := [2000], clipboard := ''out0''\<rparr>)
   \<and> copyToClipboard ''out1'' ''example-1'' (Write (Fulfilled ()))
        ((initial [])\<lparr>activeTab := ''examples'', copiedCode := Some ''example-0'',
               clock := 1500, timers := [2000], clipboard := ''out0''\<rparr>)
     = Inr ((initial [])\<lparr>activeTab := ''examples'', copiedCode := Some ''example-1'',
               clock := 1500, timers := [2000, 3500], clipboard := ''out1''\<rparr>)
   \<and> run [Elapse 500, Timeout 0]
        ((initial [])\<lparr>activeTab := ''examples'', copiedCode := Some ''example-1'',
               clock := 1500, timers := [2000, 3500], clipboard := ''out1''\<rparr>)
     = Some ((initial [])\<lparr>activeTab := ''examples'', copiedCode := None,
               clock := 2000, timers := [3500], clipboard := ''out1''\<rparr>)"
  by (simp add: initial_def copyToClipboard_def timer_callback_def tab_effect_def)

text \<open>
  C2, amended. Every call of \<open>copyToClipboard\<close> that gets past its first statement
  (\<open>navigator.clipboard\<close> is defined; the write may settle either way) completes
  normally, sets the flag to its id at once, keeps every pending timer and adds exactly
  one, due 2000 ms after the call. If no timer of an earlier call is pending at the
  call, then in every execution that follows (further copies, tab changes, fetches,
  timers firing whenever they are due) the flag is not \<open>null\<close> at any time earlier than
  2000 ms after the call.
\<close>

theorem copy_flag_held:
  "\<exists>s1. copyToClipboard text cid (Write written) s = Inr s1
      \<and> copiedCode s1 = Some cid
      \<and> timers s1 = timers s @ [clock s + 2000]
      \<and> clock s1 = clock s
      \<and> (timers s = [] \<longrightarrow>
           (\<forall>evs s'. run evs s1 = Some s' \<longrightarrow> clock s' < clock s + 2000
              \<longrightarrow> copiedCode s' \<noteq> None))"
proof -
  obtain s1 where s1: "copyToClipboard text cid (Write written) s = Inr s1"
    by (simp add: copy_with_clipboard)
  have flag: "copiedCode s1 = Some cid"
    and pending: "timers s1 = timers s @ [clock s + 2000]"
    and now: "clock s1 = clock s"
    using s1 by (auto simp: copy_with_clipboard split: settled.splits)
  have window: "copiedCode s' \<noteq> None"
    if "timers s = []" and "run evs s1 = Some s'" and "clock s' < clock s + 2000"
    for evs s'
  proof -
    have "held (clock s) s1" using that(1) s1 by (rule copy_establishes_held)
    then have "held (clock s) s'" using that(2,3) by (rule run_held)
    then show ?thesis by (simp add: held_def)
  qed
  from s1 flag pending now window show ?thesis by blast
qed

text \<open>
  C2, an instance: the prompt is copied on the fresh page, the tab is changed after
  1000 ms and the schema copied, and 999 ms later the flag is still set.
\<close>

theorem copy_flag_held_witness:
  "timers (initial []) = []
   \<and> copyToClipboard ''text'' ''prompt'' (Write (Fulfilled ())) (initial [])
     = Inr ((initial [])\<lparr>copiedCode := Some ''prompt'', timers := [2000],
              clipboard := ''text''\<rparr>)
   \<and> run [Elapse 1000, SelectTab ''schema'', ClickCopy ''{}'' ''schema'' (Write (Fulfilled ())),
          Elapse 999]
         ((initial [])\<lparr>copiedCode := Some ''prompt'', timers := [2000], clipboard := ''text''\<rparr>)
     = Some \<lparr>activeTab = ''schema'', copiedCode = Some ''schema'', systemInfo = JNull,
        loading = False, toasts = [], clock = 1999, timers = [2000, 3000], inflight = 0,
        clipboard = ''{}'', unhandled = 0\<rparr>
   \<and> (1999::nat) < clock (initial []) + 2000
   \<and> copiedCode \<lparr>activeTab = ''schema'', copiedCode = Some ''schema'', systemInfo = JNull,
        loading = False, toasts = [], clock = 1999, timers = [2000, 3000], inflight = 0,
        clipboard = ''{}'', unhandled = 0\<rparr> \<noteq> None"
proof -
  have h1: "timers (initial []) = []" by (simp add: initial_def)
  have h0: "copyToClipboard ''text'' ''prompt'' (Write (Fulfilled ())) (initial [])
     = Inr ((initial [])\<lparr>copiedCode := Some ''prompt'', timers := [2000],
              clipboard := ''text''\<rparr>)"
    by (simp add: initial_def copyToClipboard_def)
  have h2: "run [Elapse 1000, SelectTab ''schema'',
          ClickCopy ''{}'' ''schema'' (Write (Fulfilled ())), Elapse 999]
         ((initial [])\<lparr>copiedCode := Some ''prompt'', timers := [2000], clipboard := ''text''\<rparr>)
     = Some \<lparr>activeTab = ''schema'', copiedCode = Some ''schema'', systemInfo = JNull,
        loading = False, toasts = [], clock = 1999, timers = [2000, 3000], inflight = 0,
        clipboard = ''{}'', unhandled = 0\<rparr>"
    by (simp add: initial_def copyToClipboard_def tab_effect_def)
  have h3: "clock \<lparr>activeTab = ''schema'', copiedCode = Some ''schema'', systemInfo = JNull,
        loading = False, toasts = [], clock = 1999, timers = [2000, 3000], inflight = 0,
        clipboard = ''{}'', unhandled = 0\<rparr> < clock (initial []) + 2000"
    by (simp add: initial_def)
  from copy_flag_held [of "''text''" "''prompt''" "Fulfilled ()" "initial []"]
  obtain s1 where a: "copyToClipboard ''text'' ''prompt'' (Write (Fulfilled ())) (initial []) = Inr s1"
    and b: "timers (initial []) = [] \<longrightarrow>
           (\<forall>evs s'. run evs s1 = Some s' \<longrightarrow> clock s' < clock (initial []) + 2000
              \<longrightarrow> copiedCode s' \<noteq> None)"
    by blast
  from a h0 have s1: "s1 = (initial [])\<lparr>copiedCode := Some ''prompt'', timers := [2000],
              clipboard := ''text''\<rparr>" by simp
  from b h1 h2 h3 have "copiedCode \<lparr>activeTab = ''schema'', copiedCode = Some ''schema'',
        systemInfo = JNull, loading = False, toasts = [], clock = 1999, timers = [2000, 3000],
        inflight = 0, clipboard = ''{}'', unhandled = 0\<rparr> \<noteq> None"
    unfolding s1 by blast
  with h0 h1 h2 h3 show ?thesis by simp
qed

text \<open>
  C9, as stated, fails: the flag is not set unconditionally. Where \<open>navigator.clipboard\<close>
  is undefined the write cannot even be started: the first statement throws, the
  click handler ends with the error uncaught, and the flag stays \<open>null\<close>.
\<close>

theorem copy_without_clipboard_not_acknowledged:
  "copyToClipboard ''text'' ''prompt'' NoClipboard (initial []) = Inl (TypeError, initial [])
   \<and> step (ClickCopy ''text'' ''prompt'' NoClipboard) (initial [])
     = Some ((initial [])\<lparr>unhandled := 1\<rparr>)
   \<and> copiedCode ((initial [])\<lparr>unhandled := 1\<rparr>) = None
   \<and> timers ((initial [])\<lparr>unhandled := 1\<rparr>) = []"
  by (simp add: copyToClipboard_def initial_def)

text \<open>
  C9, amended. Whenever \<open>navigator.clipboard\<close> is defined, so that \<open>writeText\<close> returns
  its promise, the flag is set to the given id however that promise settles. The
  promise is neither awaited nor handled: when the write is rejected the clipboard
  keeps its text, the rejection goes unhandled, and the acknowledgment is shown all the
  same. Where \<open>navigator.clipboard\<close> is undefined the call throws a TypeError and changes
  nothing.
\<close>

theorem copy_acknowledged_despite_rejected_write:
  "(\<exists>s1. copyToClipboard text cid (Write written) s = Inr s1 \<and> copiedCode s1 = Some cid)
   \<and> copyToClipboard text cid (Write (Rejected e)) s
     = Inr (s\<lparr>unhandled := unhandled s + 1, copiedCode := Some cid,
              timers := timers s @ [clock s + 2000]\<rparr>)
   \<and> copyToClipboard text cid NoClipboard s = Inl (TypeError, s)"
  by (simp add: copyToClipboard_def Let_def split: settled.splits)


section \<open>Outcomes of loadSystemInfo\<close>

text \<open>
  C3, as stated, fails: a body that is valid JSON but has none of the fields of a
  DiagnosticPayload (here the empty object) is not a failure. It is stored as the
  payload and the success notification is shown.
\<close>

theorem shapeless_body_accepted:
  "\<not> spec_payload_shape (JObj [])
   \<and> loadSystemInfo_resume (Fulfilled (Response 200 (Fulfilled (JObj []))))
        ((initial [])\<lparr>activeTab := ''vault'', loading := True\<rparr>)
     = Inr ((initial [])\<lparr>activeTab := ''vault'', systemInfo := JObj [], toasts := [success_toast]\<rparr>)"
  by (simp add: state_ops initial_def own_prop_def)

text \<open>
  C3, amended. \<open>loadSystemInfo\<close> fails exactly when \<open>fetch\<close> rejects or
  \<open>response.json()\<close> rejects; a body that parses is a success whatever its shape. The
  two failures are not told apart: either is caught, and the invocation completes
  normally with the same single destructive notification added and nothing else
  changed but \<open>loading\<close>.
\<close>

theorem loadSystemInfo_outcomes:
  "loadSystemInfo_resume (Rejected e) s
     = Inr (s\<lparr>toasts := toasts s @ [error_toast], loading := False\<rparr>)
   \<and> loadSystemInfo_resume (Fulfilled (Response st (Rejected e'))) s
     = Inr (s\<lparr>toasts := toasts s @ [error_toast], loading := False\<rparr>)
   \<and> loadSystemInfo_resume (Fulfilled (Response st (Fulfilled body))) s
     = Inr (s\<lparr>systemInfo := body, toasts := toasts s @ [success_toast], loading := False\<rparr>)"
  by (simp add: state_ops)

text \<open>
  C4. An invocation whose request fails, by a network error or by a body that does not
  parse, leaves \<open>systemInfo\<close> as it was, both when it starts and when it is resumed,
  and calls \<open>toast\<close> once, with the error notification.
\<close>

theorem failed_fetch_keeps_payload:
  assumes "outcome = Rejected e \<or> outcome = Fulfilled (Response st (Rejected e))"
  shows "systemInfo (loadSystemInfo_start s0) = systemInfo s0
       \<and> (\<exists>s'. loadSystemInfo_resume outcome s = Inr s'
               \<and> systemInfo s' = systemInfo s
               \<and> toasts s' = toasts s @ [error_toast])"
  using assms by (auto simp: state_ops)

text \<open>
  C4, two instances: a network error with a payload already stored, and a body that
  does not parse with none stored.
\<close>

theorem failed_fetch_keeps_payload_witness:
  "(\<exists>s'. loadSystemInfo_resume (Rejected TypeError)
            ((initial [])\<lparr>systemInfo := JObj [(''request_id'', JStr ''r1'')], loading := True\<rparr>) = Inr s'
        \<and> systemInfo s' = JObj [(''request_id'', JStr ''r1'')]
        \<and> toasts s' = [error_toast])
   \<and> (\<exists>s'. loadSystemInfo_resume (Fulfilled (Response 200 (Rejected SyntaxError)))
            ((initial [])\<lparr>loading := True\<rparr>) = Inr s'
        \<and> systemInfo s' = JNull
        \<and> toasts s' = [error_toast])"
  using failed_fetch_keeps_payload [of "Rejected TypeError" TypeError 0
      "initial []" "(initial [])\<lparr>systemInfo := JObj [(''request_id'', JStr ''r1'')], loading := True\<rparr>"]
    failed_fetch_keeps_payload [of "Fulfilled (Response 200 (Rejected SyntaxError))" SyntaxError 200
      "initial []" "(initial [])\<lparr>loading := True\<rparr>"]
  by (simp add: initial_def)

text \<open>
  C8. The status of the response is never read: a response of any status, 404 and 500
  among them, whose body parses is a success. The body is stored and the success
  notification is shown, exactly as for status 200.
\<close>

theorem status_never_inspected:
  "loadSystemInfo_resume (Fulfilled (Response st (Fulfilled body))) s
     = Inr (s\<lparr>systemInfo := body, toasts := toasts s @ [success_toast], loading := False\<rparr>)
   \<and> loadSystemInfo_resume (Fulfilled (Response 404 (Fulfilled body))) s
     = loadSystemInfo_resume (Fulfilled (Response 200 (Fulfilled body))) s
   \<and> loadSystemInfo_resume (Fulfilled (Response 500 (Fulfilled body))) s
     = loadSystemInfo_resume (Fulfilled (Response 200 (Fulfilled body))) s"
  by (simp add: state_ops)

text \<open>
  C10. An invocation sets \<open>loading\<close> to true when it starts, and however its request
  settles it completes normally with \<open>loading\<close> false.
\<close>

theorem loading_reset_on_completion:
  "loading (loadSystemInfo_start s0)
   \<and> (\<exists>s'. loadSystemInfo_resume outcome s = Inr s' \<and> loading s' = False)"
  by (auto simp: state_ops split: settled.splits)


section \<open>Selecting the vault tab\<close>

text \<open>
  C5. Changing to the vault tab while \<open>systemInfo\<close> is \<open>null\<close> starts exactly one
  invocation of \<open>loadSystemInfo\<close>; selecting the vault tab while a payload (an object)
  is stored starts none.
\<close>

theorem vault_tab_selection:
  "(activeTab s \<noteq> ''vault'' \<and> systemInfo s = JNull \<longrightarrow>
      (\<exists>s'. step (SelectTab ''vault'') s = Some s'
           \<and> s' = loadSystemInfo_start (s\<lparr>activeTab := ''vault''\<rparr>)
           \<and> inflight s' = inflight s + 1))
   \<and> (systemInfo s = JObj kvs \<longrightarrow>
      (\<exists>s'. step (SelectTab ''vault'') s = Some s'
           \<and> s' = s\<lparr>activeTab := ''vault''\<rparr>
           \<and> inflight s' = inflight s))"
  by (auto simp: tab_effect_def loadSystemInfo_start_def)

text \<open>
  C5, two instances: the first visit on the fresh page, and a visit with a payload stored.
\<close>

theorem vault_tab_selection_witness:
  "(activeTab (initial []) \<noteq> ''vault'' \<and> systemInfo (initial []) = JNull)
   \<and> step (SelectTab ''vault'') (initial [])
       = Some ((initial [])\<lparr>activeTab := ''vault'', loading := True, inflight := 1\<rparr>)
   \<and> systemInfo ((initial [])\<lparr>systemInfo := JObj [(''request_id'', JStr ''r1'')]\<rparr>)
       = JObj [(''request_id'', JStr ''r1'')]
   \<and> step (SelectTab ''vault'') ((initial [])\<lparr>systemInfo := JObj [(''request_id'', JStr ''r1'')]\<rparr>)
       = Some ((initial [])\<lparr>activeTab := ''vault'', systemInfo := JObj [(''request_id'', JStr ''r1'')]\<rparr>)"
  using vault_tab_selection [of "initial []" "[]"]
    vault_tab_selection [of "(initial [])\<lparr>systemInfo := JObj [(''request_id'', JStr ''r1'')]\<rparr>"
      "[(''request_id'', JStr ''r1'')]"]
  by (simp add: initial_def loadSystemInfo_start_def)


section \<open>The list of .env files\<close>


lemma render_env_entry_object:
  "render_env_entry (path, JObj props)
     = Inr (EnvFileCard path
         (if truthy (own_prop props ''error'') then ErrorText (own_prop props ''error'')
          else FileContent (own_prop props ''content'')))"
  by (simp add: render_env_entry_def and_then_def)

lemma map_throwing_objects:
  "map_throwing render_env_entry (map (\<lambda>(p, fs). (p, JObj fs)) files)
     = Inr (map (\<lambda>(p, fs). EnvFileCard p
         (if truthy (own_prop fs ''error'') then ErrorText (own_prop fs ''error'')
          else FileContent (own_prop fs ''content''))) files)"
proof (induction files)
  case Nil
  show ?case by simp
next
  case (Cons f files)
  obtain p fs where f: "f = (p, fs)" by (cases f)
  show ?case
    by (simp add: f Cons.IH render_env_entry_object and_then_def)
qed





text \<open>
  C7, as stated, fails: an entry that carries an \<open>error\<close> field holding the empty
  string is rendered by the content branch, with its absent \<open>content\<close>, and no error
  text is shown.
\<close>

theorem empty_error_renders_content:
  "render_env_files (JObj [(''env_files'', JObj [(''/app/.env'', JObj [(''error'', JStr '''')])])])
     = Inr (FileCards [EnvFileCard ''/app/.env'' (FileContent JUndefined)])"
  by (simp add: render_env_files_def render_env_entry_def and_then_def js_or_def object_keys_def own_prop_def)

text \<open>
  C7, amended. When the stored payload is an object whose \<open>env_files\<close> is a non-empty
  mapping of paths to objects, the section is the list of one card per entry, in
  order: a card shows the error text, and not the content, when the entry's \<open>error\<close>
  is truthy (for a string: not empty), and the entry's \<open>content\<close> otherwise.
\<close>

theorem env_files_entries_render:
  assumes "systemInfo s = JObj kvs"
    and "map_of kvs ''env_files'' = Some (JObj (map (\<lambda>(p, fs). (p, JObj fs)) files))"
    and "files \<noteq> []"
  shows "render_env_files (systemInfo s)
     = Inr (FileCards (map (\<lambda>(p, fs). EnvFileCard p
         (if truthy (own_prop fs ''error'') then ErrorText (own_prop fs ''error'')
          else FileContent (own_prop fs ''content''))) files))"
  using assms
  by (simp add: render_env_files_def and_then_def js_or_def object_keys_def own_prop_def
      map_throwing_objects)

text \<open>
  C7, an instance: one file that was read and one that could not be.
\<close>

theorem env_files_entries_render_witness:
  "render_env_files (systemInfo ((initial [])\<lparr>systemInfo := JObj [(''env_files'',
       JObj [(''/app/.env'', JObj [(''content'', JStr ''KEY=1'')]),
             (''/etc/.env'', JObj [(''error'', JStr ''Permission denied'')])])]\<rparr>))
     = Inr (FileCards [EnvFileCard ''/app/.env'' (FileContent (JStr ''KEY=1'')),
                       EnvFileCard ''/etc/.env'' (ErrorText (JStr ''Permission denied''))])"
proof -
  have a: "systemInfo ((initial [])\<lparr>systemInfo := JObj [(''env_files'',
       JObj [(''/app/.env'', JObj [(''content'', JStr ''KEY=1'')]),
             (''/etc/.env'', JObj [(''error'', JStr ''Permission denied'')])])]\<rparr>)
     = JObj [(''env_files'',
       JObj [(''/app/.env'', JObj [(''content'', JStr ''KEY=1'')]),
             (''/etc/.env'', JObj [(''error'', JStr ''Permission denied'')])])]" by simp
  have b: "map_of [(''env_files'',
       JObj [(''/app/.env'', JObj [(''content'', JStr ''KEY=1'')]),
             (''/etc/.env'', JObj [(''error'', JStr ''Permission denied'')])])] ''env_files''
     = Some (JObj (map (\<lambda>(p, fs). (p, JObj fs))
          [(''/app/.env'', [(''content'', JStr ''KEY=1'')]),
           (''/etc/.env'', [(''error'', JStr ''Permission denied'')])]))" by simp
  have c: "[(''/app/.env'', [(''content'', JStr ''KEY=1'')]),
           (''/etc/.env'', [(''error'', JStr ''Permission denied'')])] \<noteq> []" by simp
  from env_files_entries_render [OF a b c] show ?thesis
    by (simp add: own_prop_def)
qed

end
